theory Spec2Isabelle
  imports Complex_Main
begin

section \<open>Rejection sampling with a closing molecule: the model\<close>

text \<open>
  The program is a script: five configuration constants, the trial loop over an implicit
  random generator, and the evaluation of the accumulated histogram. The constants become
  a record, so that the same script is read at every setting the comments of the source
  invite the user to try. All energies and sums are integers; the model takes them as
  unbounded integers, which is what the script computes as long as no sum leaves the range
  of numpy's 64-bit integers. The counters of \<open>stat\<close> are whole numbers kept in floats by
  the script; the model keeps them as naturals.
\<close>

datatype py_error = ValueError | IndexError | ZeroDivisionError

record config =
  Trials :: int
  N :: int
  E_total :: int
  E_min :: int
  E_max :: int

text \<open>\<^verbatim>\<open>E_levels = np.arange(E_min,E_max+1)\<close>: empty when \<open>E_max < E_min\<close>.\<close>

definition E_levels :: "config \<Rightarrow> int list" where
  "E_levels c = [E_min c..E_max c]"

record state =
  count :: nat
  stat :: "nat list"

text \<open>\<^verbatim>\<open>count = 0; stat = np.zeros(E_levels.size)\<close>\<close>

definition init :: "config \<Rightarrow> state" where
  "init c = \<lparr>count = 0, stat = replicate (length (E_levels c)) 0\<rparr>"

text \<open>
  \<^verbatim>\<open>np.random.randint(high, size=(n,))\<close>. The generator is implicit in the script; in the
  model the values it hands out in one call are an argument, \<open>drawn\<close>. The call raises
  ValueError for a negative size, returns the empty array for size 0, and raises
  ValueError when there is nothing to draw from (\<open>high = 0\<close>). What the generator
  promises about the values is \<open>randint_ok\<close>.
\<close>

definition randint :: "nat \<Rightarrow> int \<Rightarrow> nat list \<Rightarrow> py_error + nat list" where
  "randint high n drawn =
     (if n < 0 then Inl ValueError
      else if n = 0 then Inr []
      else if high = 0 then Inl ValueError
      else Inr drawn)"

definition randint_ok :: "nat \<Rightarrow> int \<Rightarrow> nat list \<Rightarrow> bool" where
  "randint_ok high n drawn \<longleftrightarrow> length drawn = nat n \<and> list_all (\<lambda>i. i < high) drawn"

text \<open>\<^verbatim>\<open>E_levels[E_select]\<close>: indexing by an array of indices, IndexError out of range.\<close>

definition take_levels :: "int list \<Rightarrow> nat list \<Rightarrow> py_error + int list" where
  "take_levels lv sel =
     (if list_all (\<lambda>i. i < length lv) sel then Inr (map ((!) lv) sel) else Inl IndexError)"

text \<open>\<^verbatim>\<open>np.argwhere(E_missing==E_levels)\<close>: the positions that hold the value, in order.\<close>

definition argwhere :: "int \<Rightarrow> int list \<Rightarrow> nat list" where
  "argwhere m lv = filter (\<lambda>i. lv ! i = m) [0..<length lv]"

text \<open>
  Lines 47 to 52 of the script: the missing energy, the search for it among the levels,
  and the extended selection when exactly one position matches. \<open>None\<close> is the trial that
  is not accepted.
\<close>

definition E_missing :: "config \<Rightarrow> int list \<Rightarrow> int" where
  "E_missing c energies = E_total c - sum_list energies"

definition E_select_fill :: "config \<Rightarrow> int list \<Rightarrow> nat list" where
  "E_select_fill c energies = argwhere (E_missing c energies) (E_levels c)"

definition fill_select :: "config \<Rightarrow> nat list \<Rightarrow> py_error + nat list option" where
  "fill_select c E_select =
     (case take_levels (E_levels c) E_select of
        Inl e \<Rightarrow> Inl e
      | Inr energies \<Rightarrow>
          (if length (E_select_fill c energies) = 1
           then Inr (Some (E_select @ [E_select_fill c energies ! 0]))
           else Inr None))"

text \<open>
  \<^verbatim>\<open>for E_this in E_select: stat[E_this] = stat[E_this] + 1\<close>, IndexError out of range.
\<close>

fun record_stat :: "nat list \<Rightarrow> nat list \<Rightarrow> py_error + nat list" where
  "record_stat st [] = Inr st"
| "record_stat st (E_this # rest) =
     (if E_this < length st then record_stat (st[E_this := st ! E_this + 1]) rest
      else Inl IndexError)"

text \<open>One pass through the body of the loop, with the values drawn in this pass.\<close>

definition trial :: "config \<Rightarrow> nat list \<Rightarrow> state \<Rightarrow> py_error + state" where
  "trial c drawn s =
     (case randint (length (E_levels c)) (N c) drawn of
        Inl e \<Rightarrow> Inl e
      | Inr E_select \<Rightarrow>
          (case fill_select c E_select of
             Inl e \<Rightarrow> Inl e
           | Inr None \<Rightarrow> Inr s
           | Inr (Some E_select') \<Rightarrow>
               (case record_stat (stat s) E_select' of
                  Inl e \<Rightarrow> Inl e
                | Inr st \<Rightarrow> Inr \<lparr>count = count s + 1, stat = st\<rparr>)))"

fun loop :: "config \<Rightarrow> nat list list \<Rightarrow> state \<Rightarrow> py_error + state" where
  "loop c [] s = Inr s"
| "loop c (drawn # rest) s =
     (case trial c drawn s of Inl e \<Rightarrow> Inl e | Inr s' \<Rightarrow> loop c rest s')"

text \<open>
  The state after the first \<open>t\<close> passes, where \<open>rng k\<close> is what the generator hands out
  in pass \<open>k\<close>; \<^verbatim>\<open>for k in range(Trials)\<close> is \<open>t = nat (Trials c)\<close>, no pass at all for
  a count that is not positive.
\<close>

definition run_trials :: "config \<Rightarrow> (nat \<Rightarrow> nat list) \<Rightarrow> nat \<Rightarrow> py_error + state" where
  "run_trials c rng t = loop c (map rng [0..<t]) (init c)"

definition simulate :: "config \<Rightarrow> (nat \<Rightarrow> nat list) \<Rightarrow> py_error + state" where
  "simulate c rng = run_trials c rng (nat (Trials c))"

definition rng_ok :: "config \<Rightarrow> (nat \<Rightarrow> nat list) \<Rightarrow> nat \<Rightarrow> bool" where
  "rng_ok c rng t \<longleftrightarrow> (\<forall>k\<in>{0..<t}. randint_ok (length (E_levels c)) (N c) (rng k))"

definition accepts :: "config \<Rightarrow> nat list \<Rightarrow> bool" where
  "accepts c E_select = (case fill_select c E_select of Inr (Some _) \<Rightarrow> True | _ \<Rightarrow> False)"

subsection \<open>The evaluation after the loop\<close>

text \<open>
  From line 57 on the script computes in numpy's floats. A float of the model is a real
  number, one of the two infinities, or NaN: finite values are taken exactly (no rounding,
  no overflow), and the special values follow IEEE 754 as numpy does, where a division by
  zero warns and returns NaN or an infinity instead of raising. The sign of a zero is not
  kept, so a nonzero quotient by zero takes the sign of its numerator.
\<close>

datatype npfloat = Fin real | PInf | NInf | NaN

definition np_divide :: "real \<Rightarrow> real \<Rightarrow> npfloat" where
  "np_divide x y =
     (if y \<noteq> 0 then Fin (x / y)
      else if x = 0 then NaN
      else if 0 < x then PInf else NInf)"

fun np_plus :: "npfloat \<Rightarrow> npfloat \<Rightarrow> npfloat" where
  "np_plus (Fin x) (Fin y) = Fin (x + y)"
| "np_plus NaN _ = NaN"
| "np_plus _ NaN = NaN"
| "np_plus PInf NInf = NaN"
| "np_plus NInf PInf = NaN"
| "np_plus PInf _ = PInf"
| "np_plus _ PInf = PInf"
| "np_plus NInf _ = NInf"
| "np_plus _ NInf = NInf"

fun np_negative :: "npfloat \<Rightarrow> npfloat" where
  "np_negative (Fin x) = Fin (- x)"
| "np_negative PInf = NInf"
| "np_negative NInf = PInf"
| "np_negative NaN = NaN"

definition np_minus :: "npfloat \<Rightarrow> npfloat \<Rightarrow> npfloat" where
  "np_minus x y = np_plus x (np_negative y)"

definition inf_times :: "bool \<Rightarrow> real \<Rightarrow> npfloat" where
  "inf_times positive x =
     (if x = 0 then NaN else if (0 < x) = positive then PInf else NInf)"

fun np_multiply :: "npfloat \<Rightarrow> npfloat \<Rightarrow> npfloat" where
  "np_multiply (Fin x) (Fin y) = Fin (x * y)"
| "np_multiply NaN _ = NaN"
| "np_multiply _ NaN = NaN"
| "np_multiply PInf (Fin y) = inf_times True y"
| "np_multiply NInf (Fin y) = inf_times False y"
| "np_multiply (Fin x) PInf = inf_times True x"
| "np_multiply (Fin x) NInf = inf_times False x"
| "np_multiply PInf PInf = PInf"
| "np_multiply NInf NInf = PInf"
| "np_multiply PInf NInf = NInf"
| "np_multiply NInf PInf = NInf"

fun np_sqrt :: "npfloat \<Rightarrow> npfloat" where
  "np_sqrt (Fin x) = (if x < 0 then NaN else Fin (sqrt x))"
| "np_sqrt PInf = PInf"
| "np_sqrt NInf = NaN"
| "np_sqrt NaN = NaN"

text \<open>Python's \<^verbatim>\<open>sum\<close>: the items added one by one, from the left, to 0.\<close>

definition py_sum :: "npfloat list \<Rightarrow> npfloat" where
  "py_sum xs = foldl np_plus (Fin 0) xs"

record moments =
  pop :: "npfloat list"
  E_tot_avg :: npfloat
  E_mol_avg :: npfloat
  E2_mol_avg :: npfloat
  E_mol_std :: npfloat

text \<open>
  Lines 57 to 64. \<open>stat\<close> has one entry for each level from its creation on, so the
  elementwise products pair the two arrays entry by entry. The counters in \<open>stat\<close> and
  their sums are finite, so the two divisions have real operands. One case leaves the
  floats: over an empty \<open>stat\<close> Python's \<^verbatim>\<open>sum\<close> is the integer 0, and line 60
  divides it by the integer \<open>count\<close>, which raises ZeroDivisionError when that is 0.
\<close>

definition finalize :: "config \<Rightarrow> state \<Rightarrow> py_error + moments" where
  "finalize c s =
     (let levels = map real_of_int (E_levels c);
          st = map real (stat s);
          pop = map (\<lambda>x. np_divide x (sum_list st)) st
      in if st = [] \<and> count s = 0 then Inl ZeroDivisionError
         else
           (let E_tot_avg = np_divide (sum_list (map2 (*) st levels)) (real (count s));
                E_mol_avg = py_sum (map2 np_multiply pop (map Fin levels));
                E2_levels = map (\<lambda>x. x ^ 2) levels;
                E2_mol_avg = py_sum (map2 np_multiply pop (map Fin E2_levels));
                E_mol_std = np_sqrt (np_minus E2_mol_avg (np_multiply E_mol_avg E_mol_avg))
            in Inr \<lparr>pop = pop, E_tot_avg = E_tot_avg, E_mol_avg = E_mol_avg,
                     E2_mol_avg = E2_mol_avg, E_mol_std = E_mol_std\<rparr>))"

text \<open>The script up to line 64: the loop, then the evaluation of its final state.\<close>

definition script :: "config \<Rightarrow> (nat \<Rightarrow> nat list) \<Rightarrow> py_error + moments" where
  "script c rng = (case simulate c rng of Inl e \<Rightarrow> Inl e | Inr s \<Rightarrow> finalize c s)"

subsection \<open>The moments as the specification words them\<close>




subsection \<open>Settings used as examples\<close>

text \<open>Scenarios A and B of the specification, and a setting whose lowest level is not 0.\<close>

abbreviation scenario_A :: "int \<Rightarrow> config" where
  "scenario_A T \<equiv> \<lparr>Trials = T, N = 1, E_total = 2, E_min = 0, E_max = 2\<rparr>"


abbreviation shifted :: config where
  "shifted \<equiv> \<lparr>Trials = 2, N = 2, E_total = 7, E_min = 1, E_max = 4\<rparr>"

text \<open>Two generators for the examples: one repeats a draw, one cycles through the indices.\<close>

definition constant_draws :: "nat list \<Rightarrow> nat \<Rightarrow> nat list" where
  [simp]: "constant_draws drawn k = drawn"

definition cycling_draws :: "nat \<Rightarrow> nat \<Rightarrow> nat list" where
  [simp]: "cycling_draws high k = [k mod high]"

section \<open>Properties of the levels and of the search\<close>

lemma length_E_levels: "length (E_levels c) = nat (E_max c - E_min c + 1)"
  by (simp add: E_levels_def)

lemma nth_E_levels: "i < length (E_levels c) \<Longrightarrow> E_levels c ! i = E_min c + int i"
  by (simp add: E_levels_def)


lemma filter_eq_upt: "filter (\<lambda>i. i = k) [0..<n] = (if k < n then [k] else [])"
  by (induction n) auto

lemma argwhere_E_levels:
  "argwhere m (E_levels c) =
     (if E_min c \<le> m \<and> m \<le> E_max c then [nat (m - E_min c)] else [])"
proof -
  have "filter (\<lambda>i. E_levels c ! i = m) [0..<length (E_levels c)]
        = filter (\<lambda>i. i = nat (m - E_min c) \<and> E_min c \<le> m) [0..<length (E_levels c)]"
    by (rule filter_cong) (auto simp: nth_E_levels)
  also have "\<dots> = (if E_min c \<le> m then filter (\<lambda>i. i = nat (m - E_min c)) [0..<length (E_levels c)] else [])"
    by simp
  also have "\<dots> = (if E_min c \<le> m \<and> m \<le> E_max c then [nat (m - E_min c)] else [])"
    by (auto simp: filter_eq_upt length_E_levels)
  finally show ?thesis by (simp add: argwhere_def)
qed



section \<open>One trial, and the loop\<close>

lemma randint_ok_in_range:
  "randint_ok high n drawn \<Longrightarrow> list_all (\<lambda>i. i < high) drawn"
  by (simp add: randint_ok_def)

lemma randint_value:
  "randint_ok high n drawn \<Longrightarrow> 0 \<le> n \<Longrightarrow> randint high n drawn = Inr drawn"
  by (cases drawn) (auto simp: randint_ok_def randint_def)

lemma fill_select_value:
  assumes "list_all (\<lambda>i. i < length (E_levels c)) E_select"
  shows "fill_select c E_select =
           (let m = E_missing c (map ((!) (E_levels c)) E_select)
            in if E_min c \<le> m \<and> m \<le> E_max c
               then Inr (Some (E_select @ [nat (m - E_min c)])) else Inr None)"
  using assms
  by (simp add: fill_select_def take_levels_def E_select_fill_def argwhere_E_levels Let_def)

lemma record_stat_ok:
  "list_all (\<lambda>i. i < length st) sel \<Longrightarrow>
     \<exists>st'. record_stat st sel = Inr st' \<and> length st' = length st
            \<and> sum_list st' = sum_list st + length sel"
proof (induction sel arbitrary: st)
  case Nil
  then show ?case by simp
next
  case (Cons i sel)
  let ?st = "st[i := st ! i + 1]"
  from Cons.prems have i: "i < length st" and rest: "list_all (\<lambda>i. i < length ?st) sel"
    by simp_all
  from Cons.IH [OF rest] obtain st' where
    st': "record_stat ?st sel = Inr st'" "length st' = length ?st"
         "sum_list st' = sum_list ?st + length sel"
    by blast
  have "sum_list ?st = sum_list st + 1"
    using i by (simp add: sum_list_update)
  with st' i show ?case by simp
qed

lemma closing_in_range:
  "E_min c \<le> m \<Longrightarrow> m \<le> E_max c \<Longrightarrow> nat (m - E_min c) < length (E_levels c)"
  by (simp add: length_E_levels)

lemma trial_reject:
  assumes "randint_ok (length (E_levels c)) (N c) drawn" "0 \<le> N c" "\<not> accepts c drawn"
  shows "trial c drawn s = Inr s"
proof -
  have r: "list_all (\<lambda>i. i < length (E_levels c)) drawn"
    using assms(1) by (rule randint_ok_in_range)
  show ?thesis
    using assms(3) randint_value [OF assms(1,2)]
    by (auto simp: trial_def accepts_def fill_select_value [OF r] Let_def split: if_splits)
qed

lemma trial_accept:
  assumes "randint_ok (length (E_levels c)) (N c) drawn" "0 \<le> N c" "accepts c drawn"
    and "length (stat s) = length (E_levels c)"
  shows "\<exists>st. trial c drawn s = Inr \<lparr>count = count s + 1, stat = st\<rparr>
            \<and> length st = length (E_levels c)
            \<and> sum_list st = sum_list (stat s) + nat (N c) + 1"
proof -
  have r: "list_all (\<lambda>i. i < length (E_levels c)) drawn"
    using assms(1) by (rule randint_ok_in_range)
  define m where "m = E_missing c (map ((!) (E_levels c)) drawn)"
  from assms(3) have m: "E_min c \<le> m" "m \<le> E_max c"
    and cv: "fill_select c drawn = Inr (Some (drawn @ [nat (m - E_min c)]))"
    by (simp_all add: accepts_def fill_select_value [OF r] Let_def m_def split: if_splits)
  have "list_all (\<lambda>i. i < length (stat s)) (drawn @ [nat (m - E_min c)])"
    using r closing_in_range [OF m] assms(4) by simp
  from record_stat_ok [OF this] obtain st where
    st: "record_stat (stat s) (drawn @ [nat (m - E_min c)]) = Inr st"
        "length st = length (stat s)"
        "sum_list st = sum_list (stat s) + length (drawn @ [nat (m - E_min c)])"
    by blast
  have "length drawn = nat (N c)"
    using assms(1) by (simp add: randint_ok_def)
  with st cv randint_value [OF assms(1,2)] assms(4) show ?thesis
    by (simp add: trial_def)
qed

lemma loop_ok:
  assumes "\<forall>d\<in>set ds. randint_ok (length (E_levels c)) (N c) d" "0 \<le> N c"
    and "length (stat s) = length (E_levels c)"
  shows "\<exists>s'. loop c ds s = Inr s' \<and> length (stat s') = length (E_levels c)
           \<and> count s' = count s + length (filter (accepts c) ds)
           \<and> sum_list (stat s') = sum_list (stat s) + length (filter (accepts c) ds) * (nat (N c) + 1)"
  using assms
proof (induction ds arbitrary: s)
  case Nil
  then show ?case by simp
next
  case (Cons d ds)
  from Cons.prems have d: "randint_ok (length (E_levels c)) (N c) d"
    and ds: "\<forall>d\<in>set ds. randint_ok (length (E_levels c)) (N c) d"
    by simp_all
  show ?case
  proof (cases "accepts c d")
    case True
    from trial_accept [OF d Cons.prems(2) True Cons.prems(3)] obtain st where
      st: "trial c d s = Inr \<lparr>count = count s + 1, stat = st\<rparr>"
          "length st = length (E_levels c)"
          "sum_list st = sum_list (stat s) + nat (N c) + 1"
      by blast
    let ?s = "\<lparr>count = count s + 1, stat = st\<rparr>"
    have "length (stat ?s) = length (E_levels c)" using st by simp
    from Cons.IH [OF ds Cons.prems(2) this] st True show ?thesis
      by auto
  next
    case False
    from trial_reject [OF d Cons.prems(2) False] Cons.IH [OF ds Cons.prems(2,3)] False
    show ?thesis by simp
  qed
qed

lemma run_trials_ok:
  assumes "rng_ok c rng t" "0 \<le> N c"
  shows "\<exists>s. run_trials c rng t = Inr s \<and> length (stat s) = length (E_levels c)
           \<and> count s = length (filter (accepts c) (map rng [0..<t]))
           \<and> sum_list (stat s) = count s * (nat (N c) + 1)"
proof -
  have a: "\<forall>d\<in>set (map rng [0..<t]). randint_ok (length (E_levels c)) (N c) d"
    using assms(1) by (auto simp: rng_ok_def)
  have b: "length (stat (init c)) = length (E_levels c)"
    by (simp add: init_def)
  from loop_ok [OF a assms(2) b] show ?thesis
    by (auto simp: run_trials_def init_def)
qed


section \<open>Which candidates are accepted\<close>

lemma accepts_iff:
  assumes "list_all (\<lambda>i. i < length (E_levels c)) E_select"
  shows "accepts c E_select \<longleftrightarrow>
           E_min c \<le> E_missing c (map ((!) (E_levels c)) E_select)
           \<and> E_missing c (map ((!) (E_levels c)) E_select) \<le> E_max c"
  by (simp add: accepts_def fill_select_value [OF assms] Let_def)

lemma sum_levels_bounds:
  "list_all (\<lambda>i. i < length (E_levels c)) sel \<Longrightarrow>
     int (length sel) * E_min c \<le> sum_list (map ((!) (E_levels c)) sel)
     \<and> sum_list (map ((!) (E_levels c)) sel) \<le> int (length sel) * E_max c"
proof (induction sel)
  case Nil
  then show ?case by simp
next
  case (Cons i sel)
  from Cons.prems have i: "i < length (E_levels c)" by simp
  then have "E_min c \<le> E_levels c ! i" "E_levels c ! i \<le> E_max c"
    by (simp_all add: nth_E_levels) (simp add: length_E_levels)
  with Cons show ?case by (simp add: algebra_simps)
qed

lemma unreachable_rejects:
  assumes "randint_ok (length (E_levels c)) (N c) drawn" "0 \<le> N c"
    and "E_total c > (N c + 1) * E_max c \<or> E_total c < (N c + 1) * E_min c"
  shows "\<not> accepts c drawn"
proof -
  have r: "list_all (\<lambda>i. i < length (E_levels c)) drawn"
    using assms(1) by (rule randint_ok_in_range)
  have len: "int (length drawn) = N c"
    using assms(1,2) by (simp add: randint_ok_def)
  from sum_levels_bounds [OF r] assms(3) show ?thesis
    by (auto simp: accepts_iff [OF r] E_missing_def len algebra_simps)
qed

lemma rng_ok_set:
  "rng_ok c rng t \<Longrightarrow> d \<in> set (map rng [0..<t]) \<Longrightarrow> randint_ok (length (E_levels c)) (N c) d"
  by (auto simp: rng_ok_def)


lemma unreachable_count:
  assumes "rng_ok c rng (nat (Trials c))" and "0 \<le> N c"
    and "E_total c > (N c + 1) * E_max c \<or> E_total c < (N c + 1) * E_min c"
  shows "\<exists>s. simulate c rng = Inr s \<and> count s = 0"
proof -
  have none: "filter (accepts c) (map rng [0..<nat (Trials c)]) = []"
    unfolding filter_empty_conv
    using unreachable_rejects [OF rng_ok_set [OF assms(1)] assms(2,3)] by blast
  from run_trials_ok [OF assms(1,2)] obtain s where
    s: "run_trials c rng (nat (Trials c)) = Inr s"
       "count s = length (filter (accepts c) (map rng [0..<nat (Trials c)]))"
    by auto
  have "count s = 0"
    unfolding s(2) none by simp
  with s(1) show ?thesis
    by (simp add: simulate_def)
qed

lemma zero_count_state:
  assumes "rng_ok c rng t" "0 \<le> N c" "run_trials c rng t = Inr s" "count s = 0"
  shows "stat s = replicate (length (E_levels c)) 0"
proof -
  from run_trials_ok [OF assms(1,2)] assms(3,4)
  have len: "length (stat s) = length (E_levels c)" and "sum_list (stat s) = 0"
    by auto
  then have "\<forall>n\<in>set (stat s). n = 0" by simp
  then have "replicate (length (stat s)) 0 = stat s"
    by (intro replicate_length_same) simp
  with len show ?thesis by simp
qed

lemma first_draw_raises:
  assumes "1 \<le> Trials c" and "N c < 0 \<or> 1 \<le> N c \<and> E_max c < E_min c"
  shows "simulate c rng = Inl ValueError"
proof -
  from assms(1) obtain t where t: "nat (Trials c) = Suc t"
    by (cases "nat (Trials c)") auto
  have "randint (length (E_levels c)) (N c) (rng 0) = Inl ValueError"
    using assms(2) by (auto simp: randint_def length_E_levels)
  then have "trial c (rng 0) (init c) = Inl ValueError"
    by (simp add: trial_def)
  then show ?thesis
    by (simp add: simulate_def run_trials_def t upt_rec)
qed

section \<open>The evaluation: finite values and NaN\<close>











lemma np_plus_NaN_right: "np_plus a NaN = NaN"
  by (cases a) simp_all

lemma foldl_np_plus_NaN: "foldl np_plus NaN xs = NaN"
  by (induction xs) simp_all

lemma py_sum_NaN: "0 < n \<Longrightarrow> py_sum (replicate n NaN) = NaN"
  by (cases n) (simp_all add: py_sum_def foldl_np_plus_NaN)

lemma map2_np_multiply_NaN:
  "length ys = n \<Longrightarrow> map2 np_multiply (replicate n NaN) ys = replicate n NaN"
  by (induction n arbitrary: ys) (auto simp: length_Suc_conv)

lemma sum_list_map2_zero:
  "sum_list (map2 (*) (replicate n (0::real)) ys) = 0"
  by (induction n arbitrary: ys) (auto simp: zip_Cons1 split: list.splits)

lemma finalize_zero:
  assumes "count s = 0" and "stat s = replicate (length (E_levels c)) 0"
  shows "finalize c s =
           (if E_max c < E_min c then Inl ZeroDivisionError
            else Inr \<lparr>pop = replicate (length (E_levels c)) NaN, E_tot_avg = NaN,
                      E_mol_avg = NaN, E2_mol_avg = NaN, E_mol_std = NaN\<rparr>)"
proof (cases "E_max c < E_min c")
  case True
  then have "length (E_levels c) = 0" by (simp add: length_E_levels)
  with assms True show ?thesis by (simp add: finalize_def)
next
  case False
  define n where "n = length (E_levels c)"
  have n: "0 < n" using False by (simp add: n_def length_E_levels)
  have st: "map real (stat s) = replicate n 0"
    by (simp add: assms(2) n_def)
  have pop: "map (\<lambda>x. np_divide x (sum_list (replicate n (0::real)))) (replicate n 0) = replicate n NaN"
    by (simp add: np_divide_def sum_list_replicate)
  have l1: "length (map Fin (map real_of_int (E_levels c))) = n"
    and l2: "length (map Fin (map (\<lambda>x. x\<^sup>2) (map real_of_int (E_levels c)))) = n"
    by (simp_all add: n_def)
  have ne: "replicate n (0::real) \<noteq> []" using n by simp
  show ?thesis
    unfolding finalize_def Let_def st pop map2_np_multiply_NaN [OF l1] map2_np_multiply_NaN [OF l2]
      py_sum_NaN [OF n] sum_list_map2_zero n_def [symmetric]
    using False ne by (simp add: np_divide_def np_minus_def assms(1))
qed

section \<open>The claims\<close>





text \<open>
  C3 (histogram mass). After any number \<open>t\<close> of passes through the loop, the entries
  of \<open>stat\<close> add up to \<open>count * (N + 1)\<close>.
\<close>

theorem histogram_mass:
  assumes "rng_ok c rng t" and "0 \<le> N c"
  shows "\<exists>s. run_trials c rng t = Inr s
           \<and> int (sum_list (stat s)) = int (count s) * (N c + 1)"
proof -
  from run_trials_ok [OF assms] obtain s where
    s: "run_trials c rng t = Inr s" "sum_list (stat s) = count s * (nat (N c) + 1)"
    by blast
  have "int (sum_list (stat s)) = int (count s) * (N c + 1)"
    using assms(2) by (simp add: s(2) algebra_simps)
  with s(1) show ?thesis by blast
qed

theorem histogram_mass_witness:
  "rng_ok (scenario_A 3) (cycling_draws 3) 2 \<and> 0 \<le> N (scenario_A 3)
   \<and> run_trials (scenario_A 3) (cycling_draws 3) 2 = Inr \<lparr>count = 2, stat = [1, 2, 1]\<rparr>
   \<and> (\<exists>s. run_trials (scenario_A 3) (cycling_draws 3) 2 = Inr s
         \<and> int (sum_list (stat s)) = int (count s) * (N (scenario_A 3) + 1))"
proof -
  have h1: "rng_ok (scenario_A 3) (cycling_draws 3) 2"
    by (simp add: rng_ok_def randint_ok_def length_E_levels)
  have h2: "0 \<le> N (scenario_A 3)" by simp
  have lv: "E_levels (scenario_A 3) = [0, 1, 2]"
    by (simp add: E_levels_def upto.simps)
  have v: "run_trials (scenario_A 3) (cycling_draws 3) 2 = Inr \<lparr>count = 2, stat = [1, 2, 1]\<rparr>"
    by (simp add: run_trials_def init_def trial_def randint_def fill_select_def lv
        take_levels_def E_select_fill_def E_missing_def argwhere_def upt_rec numeral_2_eq_2)
  from histogram_mass [OF h1 h2] h1 h2 v show ?thesis by blast
qed

text \<open>
  C4 as the specification has it does not hold (see the counterexample below). What the
  script does when the loop ends with \<open>count = 0\<close>: with at least one level nothing is
  raised, and every entry of \<open>pop\<close>, the average total energy, the mean, the second
  moment and the standard deviation are NaN; with no level at all (\<open>E_max < E_min\<close>)
  line 60 raises ZeroDivisionError.
\<close>

theorem zero_accepted_finalization:
  assumes "rng_ok c rng (nat (Trials c))" and "0 \<le> N c"
    and "simulate c rng = Inr s" and "count s = 0"
  shows "script c rng =
           (if E_max c < E_min c then Inl ZeroDivisionError
            else Inr \<lparr>pop = replicate (length (E_levels c)) NaN, E_tot_avg = NaN,
                      E_mol_avg = NaN, E2_mol_avg = NaN, E_mol_std = NaN\<rparr>)"
proof -
  have "stat s = replicate (length (E_levels c)) 0"
    using assms by (intro zero_count_state [of c rng "nat (Trials c)"]) (simp_all add: simulate_def)
  from finalize_zero [OF assms(4) this] assms(3) show ?thesis
    by (simp add: script_def)
qed

theorem zero_accepted_finalization_witness:
  "rng_ok \<lparr>Trials = 2, N = 1, E_total = 5, E_min = 0, E_max = 1\<rparr> (cycling_draws 2)
       (nat (Trials \<lparr>Trials = 2, N = 1, E_total = 5, E_min = 0, E_max = 1\<rparr>))
   \<and> 0 \<le> N \<lparr>Trials = 2, N = 1, E_total = 5, E_min = 0, E_max = 1\<rparr>
   \<and> simulate \<lparr>Trials = 2, N = 1, E_total = 5, E_min = 0, E_max = 1\<rparr> (cycling_draws 2)
        = Inr \<lparr>count = 0, stat = [0, 0]\<rparr>
   \<and> script \<lparr>Trials = 2, N = 1, E_total = 5, E_min = 0, E_max = 1\<rparr> (cycling_draws 2)
        = Inr \<lparr>pop = [NaN, NaN], E_tot_avg = NaN, E_mol_avg = NaN, E2_mol_avg = NaN,
               E_mol_std = NaN\<rparr>"
proof -
  let ?c = "\<lparr>Trials = 2, N = 1, E_total = 5, E_min = 0, E_max = 1\<rparr>"
  let ?rng = "cycling_draws 2"
  have h1: "rng_ok ?c ?rng (nat (Trials ?c))"
    by (simp add: rng_ok_def randint_ok_def length_E_levels)
  have h2: "0 \<le> N ?c" by simp
  have lv: "E_levels ?c = [0, 1]"
    by (simp add: E_levels_def upto.simps)
  have h3: "simulate ?c ?rng = Inr \<lparr>count = 0, stat = [0, 0]\<rparr>"
    by (simp add: simulate_def run_trials_def init_def trial_def randint_def fill_select_def lv
        take_levels_def E_select_fill_def E_missing_def argwhere_def upt_rec numeral_2_eq_2)
  have h4: "count \<lparr>count = 0, stat = [0, 0]\<rparr> = 0" by simp
  from zero_accepted_finalization [OF h1 h2 h3 h4] h1 h2 h3 show ?thesis
    by (simp add: length_E_levels numeral_2_eq_2)
qed

text \<open>
  Scenario B of the specification: no trial is accepted, and the evaluation returns NaN
  everywhere instead of failing.
\<close>

theorem zero_accepted_counterexample:
  "script \<lparr>Trials = 1000, N = 1, E_total = 5, E_min = 0, E_max = 1\<rparr> (cycling_draws 2)
     = Inr \<lparr>pop = [NaN, NaN], E_tot_avg = NaN, E_mol_avg = NaN, E2_mol_avg = NaN,
            E_mol_std = NaN\<rparr>"
proof -
  let ?c = "\<lparr>Trials = 1000, N = 1, E_total = 5, E_min = 0, E_max = 1\<rparr>"
  let ?rng = "cycling_draws 2"
  have h1: "rng_ok ?c ?rng (nat (Trials ?c))"
    by (simp add: rng_ok_def randint_ok_def length_E_levels)
  have h2: "0 \<le> N ?c" by simp
  have h3: "E_total ?c > (N ?c + 1) * E_max ?c \<or> E_total ?c < (N ?c + 1) * E_min ?c"
    by simp
  from unreachable_count [OF h1 h2 h3] obtain s where
    s: "simulate ?c ?rng = Inr s" "count s = 0" by blast
  have "stat s = replicate (length (E_levels ?c)) 0"
    using h1 h2 s by (intro zero_count_state [of ?c ?rng "nat (Trials ?c)"]) (simp_all add: simulate_def)
  from finalize_zero [OF s(2) this] s(1) show ?thesis
    by (simp add: script_def length_E_levels numeral_2_eq_2)
qed

text \<open>
  C5 as the specification has it does not hold: the script checks none of its settings. What
  it does instead: with at least one trial, the first call of the generator raises
  ValueError when \<open>N\<close> is negative, or when \<open>N \<ge> 1\<close> and there is no level
  (\<open>E_max < E_min\<close>); with \<open>Trials < 1\<close> the loop does nothing and its initial state
  goes on to the evaluation; with \<open>N = 0\<close> the loop runs to its end.
\<close>

theorem no_parameter_validation:
  "(1 \<le> Trials c \<and> (N c < 0 \<or> 1 \<le> N c \<and> E_max c < E_min c)
       \<longrightarrow> simulate c rng = Inl ValueError)
   \<and> (Trials c < 1 \<longrightarrow> simulate c rng = Inr (init c))
   \<and> (N c = 0 \<and> rng_ok c rng (nat (Trials c)) \<longrightarrow> (\<exists>s. simulate c rng = Inr s))"
proof (intro conjI impI)
  assume "1 \<le> Trials c \<and> (N c < 0 \<or> 1 \<le> N c \<and> E_max c < E_min c)"
  then show "simulate c rng = Inl ValueError"
    using first_draw_raises by blast
next
  assume "Trials c < 1"
  then show "simulate c rng = Inr (init c)"
    by (simp add: simulate_def run_trials_def)
next
  assume a: "N c = 0 \<and> rng_ok c rng (nat (Trials c))"
  then have "0 \<le> N c" by simp
  from run_trials_ok [OF conjunct2 [OF a] this] show "\<exists>s. simulate c rng = Inr s"
    by (auto simp: simulate_def)
qed

theorem no_parameter_validation_witness:
  "simulate \<lparr>Trials = 1, N = 1, E_total = 2, E_min = 2, E_max = 0\<rparr> (constant_draws [0]) = Inl ValueError
   \<and> simulate \<lparr>Trials = 1, N = - 1, E_total = 2, E_min = 0, E_max = 2\<rparr> (constant_draws []) = Inl ValueError
   \<and> simulate \<lparr>Trials = 0, N = 1, E_total = 2, E_min = 0, E_max = 2\<rparr> (constant_draws [0])
        = Inr (init \<lparr>Trials = 0, N = 1, E_total = 2, E_min = 0, E_max = 2\<rparr>)
   \<and> rng_ok \<lparr>Trials = 1, N = 0, E_total = 2, E_min = 0, E_max = 2\<rparr> (constant_draws []) 1
   \<and> (\<exists>s. simulate \<lparr>Trials = 1, N = 0, E_total = 2, E_min = 0, E_max = 2\<rparr> (constant_draws []) = Inr s)"
proof -
  have a: "simulate \<lparr>Trials = 1, N = 1, E_total = 2, E_min = 2, E_max = 0\<rparr> (constant_draws [0])
             = Inl ValueError"
    using no_parameter_validation
      [of "\<lparr>Trials = 1, N = 1, E_total = 2, E_min = 2, E_max = 0\<rparr>" "constant_draws [0]"]
    by simp
  have b: "simulate \<lparr>Trials = 1, N = - 1, E_total = 2, E_min = 0, E_max = 2\<rparr> (constant_draws [])
             = Inl ValueError"
    using no_parameter_validation
      [of "\<lparr>Trials = 1, N = - 1, E_total = 2, E_min = 0, E_max = 2\<rparr>" "constant_draws []"]
    by simp
  have c: "simulate \<lparr>Trials = 0, N = 1, E_total = 2, E_min = 0, E_max = 2\<rparr> (constant_draws [0])
             = Inr (init \<lparr>Trials = 0, N = 1, E_total = 2, E_min = 0, E_max = 2\<rparr>)"
    using no_parameter_validation
      [of "\<lparr>Trials = 0, N = 1, E_total = 2, E_min = 0, E_max = 2\<rparr>" "constant_draws [0]"]
    by simp
  have d: "rng_ok \<lparr>Trials = 1, N = 0, E_total = 2, E_min = 0, E_max = 2\<rparr> (constant_draws []) 1"
    by (simp add: rng_ok_def randint_ok_def)
  have e: "\<exists>s. simulate \<lparr>Trials = 1, N = 0, E_total = 2, E_min = 0, E_max = 2\<rparr> (constant_draws []) = Inr s"
    using no_parameter_validation
      [of "\<lparr>Trials = 1, N = 0, E_total = 2, E_min = 0, E_max = 2\<rparr>" "constant_draws []"] d
    by simp
  from a b c d e show ?thesis by blast
qed

text \<open>
  With \<open>N = 0\<close> and \<open>E_total\<close> a level, the single trial runs and is accepted, and the
  evaluation returns its moments.
\<close>

theorem no_parameter_validation_counterexample:
  "simulate \<lparr>Trials = 1, N = 0, E_total = 2, E_min = 0, E_max = 2\<rparr> (constant_draws [])
     = Inr \<lparr>count = 1, stat = [0, 0, 1]\<rparr>
   \<and> script \<lparr>Trials = 1, N = 0, E_total = 2, E_min = 0, E_max = 2\<rparr> (constant_draws [])
     = Inr \<lparr>pop = [Fin 0, Fin 0, Fin 1], E_tot_avg = Fin 2, E_mol_avg = Fin 2,
            E2_mol_avg = Fin 4, E_mol_std = Fin 0\<rparr>"
proof -
  have lv: "E_levels \<lparr>Trials = 1, N = 0, E_total = 2, E_min = 0, E_max = 2\<rparr> = [0, 1, 2]"
    by (simp add: E_levels_def upto.simps)
  have run: "simulate \<lparr>Trials = 1, N = 0, E_total = 2, E_min = 0, E_max = 2\<rparr> (constant_draws [])
     = Inr \<lparr>count = 1, stat = [0, 0, 1]\<rparr>"
    by (simp add: simulate_def run_trials_def init_def trial_def randint_def fill_select_def lv
        take_levels_def E_select_fill_def E_missing_def argwhere_def upt_rec)
  then show ?thesis
    by (simp add: script_def finalize_def lv np_divide_def py_sum_def np_minus_def Let_def)
qed










text \<open>
  C10 (index safety). No access to \<open>E_levels\<close> or \<open>stat\<close> in the loop is out of
  range, so the loop ends without IndexError and \<open>stat\<close> keeps one entry for each level;
  in every accepted trial the appended index is \<open>E_missing - E_min\<close>, and all \<open>N + 1\<close>
  indices of the recorded selection are positions of \<open>E_levels\<close>, whatever \<open>E_min\<close> is.
\<close>

theorem index_safety:
  assumes "rng_ok c rng t" and "0 \<le> N c"
  shows "(\<exists>s. run_trials c rng t = Inr s \<and> length (stat s) = length (E_levels c))
       \<and> (\<forall>k\<in>{0..<t}. \<forall>sel. fill_select c (rng k) = Inr (Some sel) \<longrightarrow>
            sel = rng k @ [nat (E_missing c (map ((!) (E_levels c)) (rng k)) - E_min c)]
            \<and> list_all (\<lambda>i. i < length (E_levels c)) sel)"
proof -
  have "sel = rng k @ [nat (E_missing c (map ((!) (E_levels c)) (rng k)) - E_min c)]
            \<and> list_all (\<lambda>i. i < length (E_levels c)) sel"
    if k: "k \<in> {0..<t}" and sel: "fill_select c (rng k) = Inr (Some sel)" for k sel
  proof -
    have "randint_ok (length (E_levels c)) (N c) (rng k)"
      using assms(1) k by (simp add: rng_ok_def)
    then have r: "list_all (\<lambda>i. i < length (E_levels c)) (rng k)"
      by (rule randint_ok_in_range)
    define m where "m = E_missing c (map ((!) (E_levels c)) (rng k))"
    from sel have m: "E_min c \<le> m" "m \<le> E_max c"
      and eq: "sel = rng k @ [nat (m - E_min c)]"
      by (auto simp: fill_select_value [OF r] Let_def m_def split: if_splits)
    from r closing_in_range [OF m] eq show ?thesis
      by (simp add: m_def)
  qed
  with run_trials_ok [OF assms] show ?thesis by blast
qed

theorem index_safety_witness:
  "rng_ok shifted (constant_draws [0, 2]) 2 \<and> 0 \<le> N shifted
   \<and> (\<exists>s. run_trials shifted (constant_draws [0, 2]) 2 = Inr s
          \<and> length (stat s) = length (E_levels shifted))
   \<and> fill_select shifted [0, 2] = Inr (Some [0, 2, 2])
   \<and> [0, 2, 2] =
        [0, 2] @ [nat (E_missing shifted (map ((!) (E_levels shifted)) [0, 2]) - E_min shifted)]
   \<and> list_all (\<lambda>i. i < length (E_levels shifted)) [0, 2, 2]"
proof -
  have lv: "E_levels shifted = [1, 2, 3, 4]"
    by (simp add: E_levels_def upto.simps)
  have h1: "rng_ok shifted (constant_draws [0, 2]) 2"
    by (simp add: rng_ok_def randint_ok_def lv)
  have h2: "0 \<le> N shifted" by simp
  have f: "fill_select shifted [0, 2] = Inr (Some [0, 2, 2])"
    by (simp add: fill_select_def lv take_levels_def E_select_fill_def E_missing_def
        argwhere_def upt_rec)
  have k: "(1::nat) \<in> {0..<2}" by simp
  note safe = index_safety [OF h1 h2]
  from safe have a: "\<exists>s. run_trials shifted (constant_draws [0, 2]) 2 = Inr s
          \<and> length (stat s) = length (E_levels shifted)"
    by blast
  from safe k have "fill_select shifted (constant_draws [0, 2] 1) = Inr (Some [0, 2, 2]) \<longrightarrow>
      [0, 2, 2] = constant_draws [0, 2] 1
          @ [nat (E_missing shifted (map ((!) (E_levels shifted)) (constant_draws [0, 2] 1))
                  - E_min shifted)]
      \<and> list_all (\<lambda>i. i < length (E_levels shifted)) [0, 2, 2]"
    by blast
  with f have b: "[0, 2, 2] =
        [0, 2] @ [nat (E_missing shifted (map ((!) (E_levels shifted)) [0, 2]) - E_min shifted)]
      \<and> list_all (\<lambda>i. i < length (E_levels shifted)) [0, 2, 2]"
    by simp
  from a b f h1 h2 show ?thesis by blast
qed

end
